theory Spec2Isabelle
  imports Main
begin

section \<open>The Todo entity and its schema (models/Todo.js)\<close>

text \<open>
  A stored document has the four paths of \<open>toDoSchema\<close> and the identifier the store
  assigns. Timestamps are readings of \<open>Date.now()\<close>: milliseconds as natural numbers.
  A string is the list of its units, and \<open>length\<close> is what the schema's
  \<open>maxLength\<close> counts. A request field is a \<open>string option\<close>: \<open>None\<close> is a
  field that is absent from the request body.
\<close>

type_synonym timestamp = nat
type_synonym object_id = string

record todo =
  todo_id :: object_id
  title :: string
  description :: string
  createdAt :: timestamp
  updatedAt :: timestamp

text \<open>
  The schema gives \<open>title\<close> and \<open>description\<close> the options
  \<open>required: true, maxLength: 50\<close>, and \<open>createdAt\<close> and \<open>updatedAt\<close> the option
  \<open>default: Date.now()\<close>. Each default is a call made while the schema literal is
  built, so the schema holds two numbers: the clock's reading at the first call and its
  reading at the second.
\<close>

record toDoSchema =
  title_maxLength :: nat
  description_maxLength :: nat
  createdAt_default :: timestamp
  updatedAt_default :: timestamp

definition new_toDoSchema :: "timestamp \<Rightarrow> timestamp \<Rightarrow> toDoSchema" where
  "new_toDoSchema now1 now2 =
     \<lparr>title_maxLength = 50, description_maxLength = 50,
      createdAt_default = now1, updatedAt_default = now2\<rparr>"

datatype validator_error = Required string | MaxLength string string nat

text \<open>\<open>required: true\<close> on a string path refuses an absent value and the empty string.\<close>

definition required :: "string option \<Rightarrow> bool" where
  "required v = (case v of None \<Rightarrow> False | Some s \<Rightarrow> s \<noteq> [])"

text \<open>\<open>maxLength: n\<close> refuses a present value of more than \<open>n\<close> units.\<close>

definition maxLength :: "nat \<Rightarrow> string option \<Rightarrow> bool" where
  "maxLength n v = (case v of None \<Rightarrow> True | Some s \<Rightarrow> length s \<le> n)"

definition path_errors :: "string \<Rightarrow> nat \<Rightarrow> string option \<Rightarrow> validator_error list" where
  "path_errors name n v =
     (if required v then [] else [Required name]) @
     (if maxLength n v then [] else [MaxLength name (case v of None \<Rightarrow> [] | Some s \<Rightarrow> s) n])"

text \<open>
  Validation of a new document: the errors of both paths, or the two validated
  strings when there is none.
\<close>

fun validate :: "toDoSchema \<Rightarrow> string option \<Rightarrow> string option
    \<Rightarrow> validator_error list + string \<times> string" where
  "validate sch (Some t) (Some d) =
     (case path_errors ''title'' (title_maxLength sch) (Some t) @
           path_errors ''description'' (description_maxLength sch) (Some d) of
        [] \<Rightarrow> Inr (t, d)
      | e # es \<Rightarrow> Inl (e # es))"
| "validate sch ttl dsc =
     Inl (path_errors ''title'' (title_maxLength sch) ttl @
          path_errors ''description'' (description_maxLength sch) dsc)"

definition new_Todo :: "toDoSchema \<Rightarrow> object_id \<Rightarrow> string \<Rightarrow> string \<Rightarrow> todo" where
  "new_Todo sch oid t d =
     \<lparr>todo_id = oid, title = t, description = d,
      createdAt = createdAt_default sch, updatedAt = updatedAt_default sch\<rparr>"

text \<open>
  The store library casts the identifier of a request before it queries: a string of 24
  hexadecimal digits is an identifier (written in small letters), a string of 12 units
  is read as the 12 bytes of one, and every other string is refused with a cast error.
\<close>

definition lower :: "char \<Rightarrow> char" where
  "lower c = (let n = (of_char c :: nat) in if 65 \<le> n \<and> n \<le> 90 then char_of (n + 32) else c)"

definition is_hex :: "char \<Rightarrow> bool" where
  "is_hex c = (c \<in> set ''0123456789abcdefABCDEF'')"

definition hex_of_char :: "char \<Rightarrow> string" where
  "hex_of_char c =
     [''0123456789abcdef'' ! ((of_char c :: nat) div 16),
      ''0123456789abcdef'' ! ((of_char c :: nat) mod 16)]"

definition cast_object_id :: "string \<Rightarrow> object_id option" where
  "cast_object_id s =
     (if length s = 24 \<and> list_all is_hex s then Some (map lower s)
      else if length s = 12 then Some (concat (map hex_of_char s))
      else None)"

definition cast_error :: "string \<Rightarrow> string" where
  \<open>cast_error s =
     ''Cast to ObjectId failed for value "'' @ s @
     ''" (type string) at path "_id" for model "Todo"''\<close>

section \<open>The persistence port\<close>

text \<open>
  The store is the list of its documents in their natural order, each under the
  identifier the driver gave it. Every call takes a \<open>fault\<close>: the error the store
  raises for this call for reasons of its own (connectivity, timeout), if it raises one.
  For each capability, the result \<open>Inl e\<close> is the port's StoreError, and a result
  \<open>None\<close> in \<open>Inr\<close> is the port's NotFound.
\<close>

type_synonym store = "todo list"
type_synonym store_error = string
type_synonym fault = "store_error option"

text \<open>
  Modelled from the spec: the insertion of the store library, which is not among the
  sources. It persists the new record and returns it. The identifier of the record is
  produced by the store's driver and comes with the record; an identifier that is
  already stored is refused, as the unique index on the identifier does.
\<close>

definition insert_todo :: "fault \<Rightarrow> todo \<Rightarrow> store \<Rightarrow> store_error + todo \<times> store" where
  "insert_todo fault doc db =
     (case fault of
        Some e \<Rightarrow> Inl e
      | None \<Rightarrow>
          if todo_id doc \<in> set (map todo_id db) then Inl ''duplicate key''
          else Inr (doc, db @ [doc]))"

text \<open>
  Modelled from the spec: the query for all documents of the store library, which is
  not among the sources. It returns every stored Todo.
\<close>

definition findAll :: "fault \<Rightarrow> store \<Rightarrow> store_error + todo list" where
  "findAll fault db = (case fault of Some e \<Rightarrow> Inl e | None \<Rightarrow> Inr db)"

text \<open>
  Modelled from the spec: the lookup by identifier of the store library, which is not
  among the sources: an exact match on the identifier, as section 4.2 has it. The
  specification treats a malformed identifier as not found; the library does not: it
  raises its cast error before it queries, and the model follows the library there.
\<close>

definition findById :: "fault \<Rightarrow> string \<Rightarrow> store \<Rightarrow> store_error + todo option" where
  "findById fault i db =
     (case fault of
        Some e \<Rightarrow> Inl e
      | None \<Rightarrow>
          (case cast_object_id i of
             None \<Rightarrow> Inl (cast_error i)
           | Some oid \<Rightarrow> Inr (find (\<lambda>t. todo_id t = oid) db)))"

text \<open>
  Modelled from the spec: the store library's replacement of the first document with a
  given identifier, which is not among the sources. It returns the record after the
  change, and the store.
\<close>

fun findOneAndUpdate :: "object_id \<Rightarrow> (todo \<Rightarrow> todo) \<Rightarrow> store \<Rightarrow> todo option \<times> store" where
  "findOneAndUpdate i f [] = (None, [])"
| "findOneAndUpdate i f (t # ts) =
     (if todo_id t = i then (Some (f t), f t # ts)
      else (case findOneAndUpdate i f ts of (r, ts') \<Rightarrow> (r, t # ts')))"

text \<open>
  Modelled from the spec: the store library's removal of the first document with a
  given identifier, which is not among the sources.
\<close>

fun findOneAndDelete :: "object_id \<Rightarrow> store \<Rightarrow> todo option \<times> store" where
  "findOneAndDelete i [] = (None, [])"
| "findOneAndDelete i (t # ts) =
     (if todo_id t = i then (Some t, ts)
      else (case findOneAndDelete i ts of (r, ts') \<Rightarrow> (r, t # ts')))"

text \<open>
  Modelled from the spec: the update by identifier of the store library, which is not
  among the sources. It replaces title and description, sets \<open>updatedAt\<close> to \<open>now\<close>
  and returns the record after the update. The identifier is cast as in the lookup.
\<close>

definition updateById :: "fault \<Rightarrow> string \<Rightarrow> string \<Rightarrow> string \<Rightarrow> timestamp \<Rightarrow> store
    \<Rightarrow> store_error + todo option \<times> store" where
  "updateById fault i t d now db =
     (case fault of
        Some e \<Rightarrow> Inl e
      | None \<Rightarrow>
          (case cast_object_id i of
             None \<Rightarrow> Inl (cast_error i)
           | Some oid \<Rightarrow>
               Inr (findOneAndUpdate oid
                      (\<lambda>doc. doc\<lparr>title := t, description := d, updatedAt := now\<rparr>) db)))"

text \<open>
  Modelled from the spec: the removal by identifier of the store library, which is not
  among the sources. The identifier is cast as in the lookup.
\<close>

definition deleteById :: "fault \<Rightarrow> string \<Rightarrow> store \<Rightarrow> store_error + todo option \<times> store" where
  "deleteById fault i db =
     (case fault of
        Some e \<Rightarrow> Inl e
      | None \<Rightarrow>
          (case cast_object_id i of
             None \<Rightarrow> Inl (cast_error i)
           | Some oid \<Rightarrow> Inr (findOneAndDelete oid db)))"

section \<open>The five operations (controllers)\<close>

text \<open>
  The controllers are not among the sources. Each operation follows section 4.3 of the
  specification: validation failures become Validation, the port's NotFound becomes
  NotFound with the documented message, and every store error becomes Internal.
\<close>

datatype kind = Validation | NotFound | Internal

datatype payload = Document todo | Documents "todo list" | NoPayload

datatype result = Success payload | Failure kind string

text \<open>
  The message of a validation failure, as the store library writes it: the name of the
  model, then each failing path with its reason.
\<close>

fun error_path :: "validator_error \<Rightarrow> string" where
  "error_path (Required p) = p"
| "error_path (MaxLength p v n) = p"

fun error_text :: "validator_error \<Rightarrow> string" where
  \<open>error_text (Required p) = ''Path `'' @ p @ ''` is required.''\<close>
| \<open>error_text (MaxLength p v n) =
     ''Path `'' @ p @ ''` (`'' @ v @
     ''`) is longer than the maximum allowed length (50).''\<close>

fun join_errors :: "validator_error list \<Rightarrow> string" where
  "join_errors [] = []"
| "join_errors [e] = error_path e @ '': '' @ error_text e"
| "join_errors (e # es) = error_path e @ '': '' @ error_text e @ '', '' @ join_errors es"

definition validation_message :: "validator_error list \<Rightarrow> string" where
  "validation_message es = ''Todo validation failed: '' @ join_errors es"

text \<open>
  Modelled from the spec: controllers/createTodo.js, which is not among the sources.
  It takes title and description from the body, validates them against the schema and
  creates the document; the stored record is the payload.
\<close>

definition createTodo :: "toDoSchema \<Rightarrow> fault \<Rightarrow> object_id \<Rightarrow> string option \<Rightarrow> string option
    \<Rightarrow> store \<Rightarrow> result \<times> store" where
  "createTodo sch fault oid ttl dsc db =
     (case validate sch ttl dsc of
        Inl es \<Rightarrow> (Failure Validation (validation_message es), db)
      | Inr (t, d) \<Rightarrow>
          (case insert_todo fault (new_Todo sch oid t d) db of
             Inl e \<Rightarrow> (Failure Internal e, db)
           | Inr (doc, db') \<Rightarrow> (Success (Document doc), db')))"

text \<open>
  Modelled from the spec: \<open>getTodo\<close> of controllers/getTodo.js, which is not among the
  sources. It returns all documents; none at all is a success.
\<close>

definition getTodo :: "fault \<Rightarrow> store \<Rightarrow> result" where
  "getTodo fault db =
     (case findAll fault db of
        Inl e \<Rightarrow> Failure Internal e
      | Inr ds \<Rightarrow> Success (Documents ds))"

text \<open>
  Modelled from the spec: \<open>getTodoById\<close> of controllers/getTodo.js, which is not among
  the sources. The port's NotFound becomes the NotFound failure with the documented
  message, a store error becomes Internal.
\<close>

definition getTodoById :: "fault \<Rightarrow> string \<Rightarrow> store \<Rightarrow> result" where
  "getTodoById fault i db =
     (case findById fault i db of
        Inl e \<Rightarrow> Failure Internal e
      | Inr None \<Rightarrow> Failure NotFound ''no data find for given id''
      | Inr (Some t) \<Rightarrow> Success (Document t))"

text \<open>
  Modelled from the spec: controllers/updateTodo.js, which is not among the sources.
  It writes title and description as they are given, without validating them again,
  with the current time as \<open>updatedAt\<close>; NotFound and store errors map as in the
  lookup, and a success returns the updated record.
\<close>

definition updateTodo :: "fault \<Rightarrow> string \<Rightarrow> string \<Rightarrow> string \<Rightarrow> timestamp \<Rightarrow> store
    \<Rightarrow> result \<times> store" where
  "updateTodo fault i t d now db =
     (case updateById fault i t d now db of
        Inl e \<Rightarrow> (Failure Internal e, db)
      | Inr (None, db') \<Rightarrow> (Failure NotFound ''no data find for given id'', db')
      | Inr (Some doc, db') \<Rightarrow> (Success (Document doc), db'))"

text \<open>
  Modelled from the spec: controllers/deleteTodo.js, which is not among the sources.
  NotFound and store errors map as in the lookup; a success returns a confirmation
  without payload.
\<close>

definition deleteTodo :: "fault \<Rightarrow> string \<Rightarrow> store \<Rightarrow> result \<times> store" where
  "deleteTodo fault i db =
     (case deleteById fault i db of
        Inl e \<Rightarrow> (Failure Internal e, db)
      | Inr (None, db') \<Rightarrow> (Failure NotFound ''no data find for given id'', db')
      | Inr (Some doc, db') \<Rightarrow> (Success NoPayload, db'))"

section \<open>Responses\<close>







section \<open>The service over time\<close>

text \<open>
  The state of the running service: the wall clock that \<open>Date.now()\<close> reads, the schema
  built when models/Todo.js was last loaded, and the stored documents, which outlive
  every load. The first start finds an empty store. Between the operations the clock
  takes a new reading (\<open>Clock\<close>), which may lie before the last one when the clock of
  the machine is set back, and the process may start again and load the model anew
  (\<open>Load\<close>). Loading the model makes the two calls of the schema literal; \<open>d\<close> is
  the time that passes between them. An operation reads the clock where its controller
  calls \<open>Date.now()\<close>.
\<close>

record service =
  clock :: timestamp
  schema :: toDoSchema
  todos :: store

definition load_model :: "nat \<Rightarrow> service \<Rightarrow> service" where
  "load_model d s = s\<lparr>clock := clock s + d, schema := new_toDoSchema (clock s) (clock s + d)\<rparr>"

definition first_start :: "timestamp \<Rightarrow> nat \<Rightarrow> service" where
  "first_start t0 d = load_model d \<lparr>clock = t0, schema = new_toDoSchema t0 t0, todos = []\<rparr>"

datatype event =
    Clock timestamp
  | Load nat
  | Create fault object_id "string option" "string option"
  | ListAll fault
  | GetById fault string
  | Update fault string string string
  | DeleteById fault string

fun exec :: "service \<Rightarrow> event \<Rightarrow> result option \<times> service" where
  "exec s (Clock n) = (None, s\<lparr>clock := n\<rparr>)"
| "exec s (Load d) = (None, load_model d s)"
| "exec s (Create f oid ttl dsc) =
     (case createTodo (schema s) f oid ttl dsc (todos s) of
        (r, db') \<Rightarrow> (Some r, s\<lparr>todos := db'\<rparr>))"
| "exec s (ListAll f) = (Some (getTodo f (todos s)), s)"
| "exec s (GetById f i) = (Some (getTodoById f i (todos s)), s)"
| "exec s (Update f i t d) =
     (case updateTodo f i t d (clock s) (todos s) of
        (r, db') \<Rightarrow> (Some r, s\<lparr>todos := db'\<rparr>))"
| "exec s (DeleteById f i) =
     (case deleteTodo f i (todos s) of
        (r, db') \<Rightarrow> (Some r, s\<lparr>todos := db'\<rparr>))"

definition step :: "service \<Rightarrow> event \<Rightarrow> service" where
  "step s e = snd (exec s e)"

definition run :: "service \<Rightarrow> event list \<Rightarrow> service" where
  "run s es = foldl step s es"

text \<open>A sequence of events in which no new reading of the clock lies before the last.\<close>

fun clock_never_back :: "service \<Rightarrow> event list \<Rightarrow> bool" where
  "clock_never_back s [] = True"
| "clock_never_back s (Clock n # es) = (clock s \<le> n \<and> clock_never_back (step s (Clock n)) es)"
| "clock_never_back s (e # es) = clock_never_back (step s e) es"

text \<open>
  The timestamps are in order: the two defaults of the schema and the two timestamps of
  every stored document, and none of them lies after the clock.
\<close>

definition in_order :: "service \<Rightarrow> bool" where
  "in_order s =
     (createdAt_default (schema s) \<le> updatedAt_default (schema s) \<and>
      updatedAt_default (schema s) \<le> clock s \<and>
      (\<forall>x\<in>set (todos s). createdAt x \<le> updatedAt x \<and> updatedAt x \<le> clock s))"

section \<open>Routing (routes/todos.js and index.js)\<close>

text \<open>
  A request path is the list of its segments: the path of the URL without the query,
  split at the slashes, one trailing slash dropped. A route path is a list of literal
  segments and named parameters. A literal is compared without regard to the case of
  the letters A to Z, and a parameter takes one segment that is not empty; these are the
  defaults of the router. Where a router is mounted the framework accepts one more
  slash, that is one empty segment (\<open>Mount_point\<close>). A parameter is passed on as it
  is written: the segments are taken to hold no percent escape, which the framework
  would decode, answering a malformed one with status 400.
\<close>

datatype http_method = GET | HEAD | POST | PUT | DELETE | PATCH | OPTIONS | Other_method string

datatype segment = Lit string | Param string | Mount_point

datatype handler = CreateTodo | GetTodo | GetTodoById | UpdateTodo | DeleteTodo | HomePage

record route =
  route_method :: http_method
  route_path :: "segment list"
  route_handler :: handler

definition same_segment :: "string \<Rightarrow> string \<Rightarrow> bool" where
  "same_segment l s = (map lower l = map lower s)"

text \<open>What is left of a path where a router is mounted: one empty segment is dropped.\<close>

fun after_mount :: "string list \<Rightarrow> string list" where
  "after_mount [] = []"
| "after_mount (s # ss) = (if s = [] then ss else s # ss)"

fun match_path :: "segment list \<Rightarrow> string list \<Rightarrow> (string \<times> string) list option" where
  "match_path [] [] = Some []"
| "match_path (Mount_point # ps) ss = match_path ps (after_mount ss)"
| "match_path (Lit l # ps) (s # ss) = (if same_segment l s then match_path ps ss else None)"
| "match_path (Param n # ps) (s # ss) =
     (if s = [] then None else map_option ((#) (n, s)) (match_path ps ss))"
| "match_path ps ss = None"

text \<open>The five routes of routes/todos.js, in the order of the file.\<close>

definition router :: "route list" where
  "router =
     [\<lparr>route_method = POST, route_path = [Lit ''createTodos''], route_handler = CreateTodo\<rparr>,
      \<lparr>route_method = GET, route_path = [Lit ''getTodos''], route_handler = GetTodo\<rparr>,
      \<lparr>route_method = GET, route_path = [Lit ''getTodo'', Param ''id''],
       route_handler = GetTodoById\<rparr>,
      \<lparr>route_method = PUT, route_path = [Lit ''updateTodo'', Param ''id''],
       route_handler = UpdateTodo\<rparr>,
      \<lparr>route_method = DELETE, route_path = [Lit ''deleteTodo'', Param ''id''],
       route_handler = DeleteTodo\<rparr>]"

text \<open>
  The outcome of the routing: a handler with the parameters of the path, the
  framework's own reply to an OPTIONS request (the methods allowed on the path), or the
  default not-found answer. A route takes a request of its own method, and a GET route
  also takes a HEAD request. A route whose path matches an OPTIONS request adds its
  methods to the reply, each method once.
\<close>

datatype dispatched =
    Handled handler "(string \<times> string) list"
  | Options_reply "http_method list"
  | NotFoundDefault

definition handles :: "http_method \<Rightarrow> http_method \<Rightarrow> bool" where
  "handles rm m = (rm = m \<or> (m = HEAD \<and> rm = GET))"

fun allowed :: "http_method \<Rightarrow> http_method list" where
  "allowed GET = [GET, HEAD]"
| "allowed rm = [rm]"

definition append_methods :: "http_method list \<Rightarrow> http_method list \<Rightarrow> http_method list" where
  "append_methods opts ms = opts @ filter (\<lambda>x. x \<notin> set opts) ms"

fun finish :: "http_method list \<Rightarrow> dispatched" where
  "finish [] = NotFoundDefault"
| "finish opts = Options_reply opts"

text \<open>
  One route looks at a request: it takes the request (\<open>Inl\<close>), or it passes the
  request on with the methods collected so far (\<open>Inr\<close>).
\<close>

definition visit :: "http_method list \<Rightarrow> route \<Rightarrow> http_method \<Rightarrow> string list
    \<Rightarrow> handler \<times> (string \<times> string) list + http_method list" where
  "visit opts r m path =
     (case match_path (route_path r) path of
        None \<Rightarrow> Inr opts
      | Some params \<Rightarrow>
          if handles (route_method r) m then Inl (route_handler r, params)
          else if m = OPTIONS then Inr (append_methods opts (allowed (route_method r)))
          else Inr opts)"

fun routes_from :: "http_method list \<Rightarrow> route list \<Rightarrow> http_method \<Rightarrow> string list \<Rightarrow> dispatched" where
  "routes_from opts [] m path = finish opts"
| "routes_from opts (r # rs) m path =
     (case visit opts r m path of
        Inl (h, params) \<Rightarrow> Handled h params
      | Inr opts' \<Rightarrow> routes_from opts' rs m path)"

definition find_route :: "route list \<Rightarrow> http_method \<Rightarrow> string list \<Rightarrow> dispatched" where
  "find_route rs m path = routes_from [] rs m path"

text \<open>
  The layers that index.js puts on the application: the body parser, the router mounted
  at a path, and a route of the application itself. A mounted router sees the path
  without the mount path; when none of its routes takes the request and it has no reply
  of its own, the request goes on to the next layer. A request that no layer takes gets
  the default not-found answer. The body of a request is not part of the routing.
\<close>

datatype layer = Json_parser | Mount "string list" "route list" | App_route route

fun strip_mount :: "string list \<Rightarrow> string list \<Rightarrow> string list option" where
  "strip_mount [] ss = Some (after_mount ss)"
| "strip_mount (l # ls) [] = None"
| "strip_mount (l # ls) (s # ss) = (if same_segment l s then strip_mount ls ss else None)"

fun layers_from :: "http_method list \<Rightarrow> layer list \<Rightarrow> http_method \<Rightarrow> string list \<Rightarrow> dispatched" where
  "layers_from opts [] m path = finish opts"
| "layers_from opts (Json_parser # ls) m path = layers_from opts ls m path"
| "layers_from opts (Mount pre rs # ls) m path =
     (case strip_mount pre path of
        None \<Rightarrow> layers_from opts ls m path
      | Some rest \<Rightarrow>
          (case find_route rs m rest of
             NotFoundDefault \<Rightarrow> layers_from opts ls m path
           | Handled h params \<Rightarrow> Handled h params
           | Options_reply ms \<Rightarrow> Options_reply ms))"
| "layers_from opts (App_route r # ls) m path =
     (case visit opts r m path of
        Inl (h, params) \<Rightarrow> Handled h params
      | Inr opts' \<Rightarrow> layers_from opts' ls m path)"

definition dispatch :: "layer list \<Rightarrow> http_method \<Rightarrow> string list \<Rightarrow> dispatched" where
  "dispatch ls m path = layers_from [] ls m path"

text \<open>
  The operations that a client can reach, as one table: the five routes of the
  interface under the base path, and the home page that index.js adds.
\<close>

definition exposed :: "route list" where
  "exposed =
     [\<lparr>route_method = POST,
       route_path = [Lit ''api'', Lit ''v1'', Mount_point, Lit ''createTodos''],
       route_handler = CreateTodo\<rparr>,
      \<lparr>route_method = GET,
       route_path = [Lit ''api'', Lit ''v1'', Mount_point, Lit ''getTodos''],
       route_handler = GetTodo\<rparr>,
      \<lparr>route_method = GET,
       route_path = [Lit ''api'', Lit ''v1'', Mount_point, Lit ''getTodo'', Param ''id''],
       route_handler = GetTodoById\<rparr>,
      \<lparr>route_method = PUT,
       route_path = [Lit ''api'', Lit ''v1'', Mount_point, Lit ''updateTodo'', Param ''id''],
       route_handler = UpdateTodo\<rparr>,
      \<lparr>route_method = DELETE,
       route_path = [Lit ''api'', Lit ''v1'', Mount_point, Lit ''deleteTodo'', Param ''id''],
       route_handler = DeleteTodo\<rparr>,
      \<lparr>route_method = GET, route_path = [], route_handler = HomePage\<rparr>]"

section \<open>Start of the process (index.js)\<close>

datatype connection = NotStarted | Connecting | Connected | Failed

record process =
  stack :: "layer list"
  listening :: "string option"
  connection :: connection
  console :: "string list"
  exit_code :: "nat option"

definition new_process :: process where
  "new_process =
     \<lparr>stack = [], listening = None, connection = NotStarted, console = [], exit_code = None\<rparr>"

text \<open>
  \<open>const PORT = process.env.PORT || 4000\<close>: an unset or empty variable gives 4000. The
  port is kept as the text that the log line prints.
\<close>

definition PORT :: "string option \<Rightarrow> string" where
  "PORT env_PORT =
     (case env_PORT of None \<Rightarrow> ''4000'' | Some s \<Rightarrow> if s = [] then ''4000'' else s)"

text \<open>
  The statements of index.js that act on the application, in the order of the file.
  \<open>dbConnect()\<close> only starts the connection: \<open>mongoose.connect\<close> returns a promise,
  and its outcome arrives later as an event of its own.
\<close>

datatype statement = Use_json | Use_todoRoutes | Listen | Call_dbConnect | Get_home

definition index_js :: "statement list" where
  "index_js = [Use_json, Use_todoRoutes, Listen, Call_dbConnect, Get_home]"

fun exec_statement :: "string option \<Rightarrow> process \<Rightarrow> statement \<Rightarrow> process" where
  "exec_statement env p Use_json = p\<lparr>stack := stack p @ [Json_parser]\<rparr>"
| "exec_statement env p Use_todoRoutes = p\<lparr>stack := stack p @ [Mount [''api'', ''v1''] router]\<rparr>"
| "exec_statement env p Listen =
     p\<lparr>listening := Some (PORT env),
       console := console p @ [''server started at '' @ PORT env]\<rparr>"
| "exec_statement env p Call_dbConnect = p\<lparr>connection := Connecting\<rparr>"
| "exec_statement env p Get_home =
     p\<lparr>stack := stack p @
        [App_route \<lparr>route_method = GET, route_path = [], route_handler = HomePage\<rparr>]\<rparr>"

definition startup :: "string option \<Rightarrow> statement list \<Rightarrow> process" where
  "startup env stmts = foldl (exec_statement env) new_process stmts"

text \<open>
  A request reaches the routing once the server listens and the process has not exited;
  nothing on that way looks at the connection to the store.
\<close>

definition receive :: "process \<Rightarrow> http_method \<Rightarrow> string list \<Rightarrow> dispatched option" where
  "receive p m path =
     (if listening p \<noteq> None \<and> exit_code p = None then Some (dispatch (stack p) m path)
      else None)"

section \<open>The outcome of the connection (config/database.js)\<close>

text \<open>
  The two callbacks of \<open>dbConnect\<close> are short statement lists. A statement logs a
  string, logs a member of a named object, or calls a member of a named object with a
  number. Reading a name that is bound neither as a parameter nor in the file raises a
  ReferenceError; calling a member that is not a function raises a TypeError; the one
  function of the model is \<open>process.exit\<close>, which ends the process with the given
  code.
\<close>

datatype js_value = Str string | Obj "(string \<times> js_value) list" | Exit_function

datatype js_error = ReferenceError string | TypeError string

datatype js_statement =
    Log_string string
  | Log_member string string
  | Call_member string string nat

type_synonym scope = "(string \<times> js_value) list"
type_synonym callback = "string list \<times> js_statement list"

fun get_member :: "js_value \<Rightarrow> string \<Rightarrow> js_value option" where
  "get_member (Obj fs) f = map_of fs f"
| "get_member v f = None"

fun printed :: "js_value option \<Rightarrow> string" where
  "printed None = ''undefined''"
| "printed (Some (Str s)) = s"
| "printed (Some (Obj fs)) = ''[object Object]''"
| "printed (Some Exit_function) = ''[Function: exit]''"

definition log_line :: "string \<Rightarrow> process \<Rightarrow> process" where
  "log_line s p = p\<lparr>console := console p @ [s]\<rparr>"

fun exec_js :: "scope \<Rightarrow> process \<Rightarrow> js_statement \<Rightarrow> js_error + process" where
  "exec_js sc p (Log_string s) = Inr (log_line s p)"
| "exec_js sc p (Log_member x f) =
     (case map_of sc x of
        None \<Rightarrow> Inl (ReferenceError (x @ '' is not defined''))
      | Some v \<Rightarrow> Inr (log_line (printed (get_member v f)) p))"
| "exec_js sc p (Call_member x f n) =
     (case map_of sc x of
        None \<Rightarrow> Inl (ReferenceError (x @ '' is not defined''))
      | Some v \<Rightarrow>
          (case get_member v f of
             Some Exit_function \<Rightarrow> Inr (p\<lparr>exit_code := Some n\<rparr>)
           | _ \<Rightarrow> Inl (TypeError (x @ ''.'' @ f @ '' is not a function''))))"

text \<open>The statements run in order; an error ends the body, and so does the exit.\<close>

fun exec_body :: "scope \<Rightarrow> process \<Rightarrow> js_statement list \<Rightarrow> js_error option \<times> process" where
  "exec_body sc p [] = (None, p)"
| "exec_body sc p (st # sts) =
     (case exec_js sc p st of
        Inl e \<Rightarrow> (Some e, p)
      | Inr p' \<Rightarrow> if exit_code p' \<noteq> None then (None, p') else exec_body sc p' sts)"

definition call :: "scope \<Rightarrow> callback \<Rightarrow> js_value \<Rightarrow> process \<Rightarrow> js_error option \<times> process" where
  "call sc cb arg p = exec_body (zip (fst cb) [arg] @ sc) p (snd cb)"

text \<open>The names that database.js and the module wrapper bind.\<close>

definition database_js_scope :: scope where
  "database_js_scope =
     [(''mongoose'', Obj []), (''dbConnect'', Obj []), (''require'', Obj []),
      (''module'', Obj []), (''exports'', Obj []), (''console'', Obj []),
      (''process'', Obj [(''env'', Obj []), (''exit'', Exit_function)])]"

text \<open>The callback of \<open>then\<close>, and the callback of \<open>catch\<close>, which takes no parameter.\<close>

definition on_connected :: callback where
  "on_connected = ([], [Log_string ''connected successfully''])"

definition on_failed :: callback where
  "on_failed =
     ([], [Log_string ''issue in connection'',
           Log_member ''error'' ''message'',
           Call_member ''process'' ''env'' 1])"

text \<open>
  The callback of \<open>catch\<close> as the repository's documentation lists it: it takes the
  error as its parameter and ends with \<open>process.exit(1)\<close>.
\<close>

definition documented_on_failed :: callback where
  "documented_on_failed =
     ([''error''], [Log_string ''Issue in connection'',
                   Log_member ''error'' ''message'',
                   Call_member ''process'' ''exit'' 1])"

text \<open>
  The promise of \<open>mongoose.connect\<close> settles once. A callback that raises an error
  leaves a rejection that nothing handles. What the runtime does with it is its own
  setting, not the file's: it ends the process with code 1 (the default of the current
  runtimes), or it prints a warning and goes on (the default of the older ones that the
  repository's documentation still admits).
\<close>

datatype outcome = Resolved | Rejected string

datatype unhandled_rejections = Throw | Warn

fun unhandled :: "unhandled_rejections \<Rightarrow> process \<Rightarrow> process" where
  "unhandled Throw p = p\<lparr>exit_code := Some 1\<rparr>"
| "unhandled Warn p = p"

fun message_of :: "js_error \<Rightarrow> string" where
  "message_of (ReferenceError s) = s"
| "message_of (TypeError s) = s"

definition rejected :: "unhandled_rejections \<Rightarrow> callback \<Rightarrow> string \<Rightarrow> process
    \<Rightarrow> js_error option \<times> process" where
  "rejected mode on_err msg p =
     (case call database_js_scope on_err (Obj [(''message'', Str msg)]) p of
        (None, p') \<Rightarrow> (None, p')
      | (Some e, p') \<Rightarrow> (Some e, unhandled mode p'))"

fun settle :: "unhandled_rejections \<Rightarrow> callback \<Rightarrow> callback \<Rightarrow> process \<Rightarrow> outcome
    \<Rightarrow> js_error option \<times> process" where
  "settle mode on_ok on_err p Resolved =
     (case call database_js_scope on_ok (Obj []) (p\<lparr>connection := Connected\<rparr>) of
        (None, p') \<Rightarrow> (None, p')
      | (Some e, p') \<Rightarrow> rejected mode on_err (message_of e) p')"
| "settle mode on_ok on_err p (Rejected reason) =
     rejected mode on_err reason (p\<lparr>connection := Failed\<rparr>)"

section \<open>Lemmas about the store\<close>

lemma find_absent:
  "i \<notin> todo_id ` set db \<Longrightarrow> find (\<lambda>x. todo_id x = i) db = None"
  by (induction db) auto




lemma findOneAndUpdate_present:
  assumes "find (\<lambda>x. todo_id x = i) db = Some doc"
  shows "fst (findOneAndUpdate i f db) = Some (f doc)"
  using assms by (induction db) (auto split: prod.splits if_splits)

lemma find_findOneAndUpdate_same:
  assumes "find (\<lambda>x. todo_id x = i) db = Some doc" and "todo_id (f doc) = i"
  shows "find (\<lambda>x. todo_id x = i) (snd (findOneAndUpdate i f db)) = Some (f doc)"
  using assms by (induction db) (auto split: prod.splits if_splits)

lemma find_findOneAndUpdate_other:
  assumes "j \<noteq> i" and "\<And>x. todo_id (f x) = todo_id x"
  shows "find (\<lambda>x. todo_id x = j) (snd (findOneAndUpdate i f db)) = find (\<lambda>x. todo_id x = j) db"
  using assms by (induction db) (auto split: prod.splits if_splits)

lemma ids_findOneAndUpdate:
  assumes "\<And>x. todo_id (f x) = todo_id x"
  shows "map todo_id (snd (findOneAndUpdate i f db)) = map todo_id db"
  using assms by (induction db) (auto split: prod.splits if_splits)

lemma set_findOneAndUpdate:
  "x \<in> set (snd (findOneAndUpdate i f db)) \<Longrightarrow>
     x \<in> set db \<or> (\<exists>y\<in>set db. todo_id y = i \<and> x = f y)"
  by (induction db arbitrary: x) (auto split: prod.splits if_splits)

lemma set_findOneAndDelete:
  "x \<in> set (snd (findOneAndDelete i db)) \<Longrightarrow> x \<in> set db"
  by (induction db arbitrary: x) (auto split: prod.splits if_splits)

lemma in_findOneAndUpdate:
  "findOneAndUpdate i f db = (r, db') \<Longrightarrow> x \<in> set db' \<Longrightarrow> x \<in> set db \<or> x \<in> f ` set db"
  using set_findOneAndUpdate [of x i f db] by auto

lemma in_findOneAndDelete:
  "findOneAndDelete i db = (r, db') \<Longrightarrow> x \<in> set db' \<Longrightarrow> x \<in> set db"
  using set_findOneAndDelete [of x i db] by auto

lemma ids_findOneAndDelete:
  "distinct (map todo_id db) \<Longrightarrow> distinct (map todo_id (snd (findOneAndDelete i db)))"
  by (induction db) (auto split: prod.splits if_splits dest: in_findOneAndDelete)

lemma find_findOneAndDelete_other:
  "j \<noteq> i \<Longrightarrow> find (\<lambda>x. todo_id x = j) (snd (findOneAndDelete i db)) = find (\<lambda>x. todo_id x = j) db"
  by (induction db) (auto split: prod.splits if_splits)

lemma find_findOneAndDelete_same:
  "distinct (map todo_id db) \<Longrightarrow> find (\<lambda>x. todo_id x = i) db \<noteq> None \<Longrightarrow>
     find (\<lambda>x. todo_id x = i) (snd (findOneAndDelete i db)) = None"
  by (induction db) (auto split: prod.splits if_splits simp: find_absent)


lemma cast_example_12: "cast_object_id ''60d5ec49c1234567890abc12'' = Some ''60d5ec49c1234567890abc12''"
  by code_simp


section \<open>Validation on create\<close>

lemma validate_Inl:
  assumes "\<not> required ttl \<or> \<not> maxLength (title_maxLength sch) ttl \<or>
           \<not> required dsc \<or> \<not> maxLength (description_maxLength sch) dsc"
  shows "\<exists>es. validate sch ttl dsc = Inl es"
proof (cases ttl)
  case None
  then show ?thesis by simp
next
  case (Some t)
  note ttl = this
  show ?thesis
  proof (cases dsc)
    case None
    then show ?thesis by (cases ttl) simp_all
  next
    case (Some d)
    with ttl assms show ?thesis
      by (auto simp: path_errors_def split: list.splits)
  qed
qed


text \<open>
  C1. Whenever the title or the description is absent, empty or longer than 50, the
  create operation returns a Validation failure and leaves the store as it was:
  nothing is inserted, whatever the store would have answered.
\<close>

theorem createTodo_invalid_no_write:
  assumes "ttl = None \<or> ttl = Some [] \<or> (\<exists>s. ttl = Some s \<and> 50 < length s) \<or>
           dsc = None \<or> dsc = Some [] \<or> (\<exists>s. dsc = Some s \<and> 50 < length s)"
  shows "\<exists>msg. createTodo (new_toDoSchema now1 now2) fault oid ttl dsc db
                  = (Failure Validation msg, db)"
proof -
  let ?sch = "new_toDoSchema now1 now2"
  from assms have "\<not> required ttl \<or> \<not> maxLength (title_maxLength ?sch) ttl \<or>
      \<not> required dsc \<or> \<not> maxLength (description_maxLength ?sch) dsc"
    by (auto simp: required_def maxLength_def new_toDoSchema_def)
  then obtain es where "validate ?sch ttl dsc = Inl es"
    using validate_Inl by blast
  then show ?thesis by (simp add: createTodo_def)
qed

text \<open>
  An empty title with a good description, on an empty store.
\<close>

theorem createTodo_invalid_no_write_witness:
  "\<exists>msg. createTodo (new_toDoSchema 7 7) None ''60d5ec49c1234567890abc12''
            (Some []) (Some ''Milk, eggs, bread'') []
          = (Failure Validation msg, [])"
  using createTodo_invalid_no_write [of "Some []" "Some ''Milk, eggs, bread''" 7 7 None
      "''60d5ec49c1234567890abc12''" "[]"]
  by simp

section \<open>Identifiers that are not stored\<close>







section \<open>Lemmas about the service\<close>

lemma find_append_present:
  "find P xs = Some x \<Longrightarrow> find P (xs @ ys) = Some x"
  by (induction xs) (auto split: if_splits)

lemma distinct_step:
  assumes "distinct (map todo_id (todos s))"
  shows "distinct (map todo_id (todos (step s e)))"
proof (cases e)
  case (Create f oid ttl dsc)
  with assms show ?thesis
    by (auto simp: step_def createTodo_def insert_todo_def new_Todo_def
        split: sum.splits option.splits prod.splits if_splits)
next
  case (Update f i t' d')
  with assms show ?thesis
    using ids_findOneAndUpdate [of "\<lambda>doc. doc\<lparr>title := t', description := d', updatedAt := clock s\<rparr>"
        _ "todos s"]
    by (auto simp: step_def updateTodo_def updateById_def
        split: sum.splits option.splits prod.splits) (metis snd_conv)+
next
  case (DeleteById f i)
  with assms show ?thesis
    using ids_findOneAndDelete [OF assms]
    by (auto simp: step_def deleteTodo_def deleteById_def
        split: sum.splits option.splits prod.splits) (metis snd_conv)+
qed (use assms in \<open>simp_all add: step_def load_model_def\<close>)

lemma distinct_run:
  "distinct (map todo_id (todos s)) \<Longrightarrow> distinct (map todo_id (todos (run s es)))"
  by (induction es arbitrary: s) (simp_all add: run_def distinct_step)

lemma distinct_first_start: "distinct (map todo_id (todos (first_start t0 d)))"
  by (simp add: first_start_def load_model_def)

lemma in_order_first_start: "in_order (first_start t0 d)"
  by (simp add: in_order_def first_start_def load_model_def new_toDoSchema_def)

lemma in_order_step:
  assumes "in_order s" and "\<And>n. e = Clock n \<Longrightarrow> clock s \<le> n"
  shows "in_order (step s e)"
proof (cases e)
  case (Clock n)
  with assms show ?thesis by (auto simp: in_order_def step_def)
next
  case (Load d)
  with assms show ?thesis
    by (auto simp: in_order_def step_def load_model_def new_toDoSchema_def)
next
  case (Create f oid ttl dsc)
  with assms(1) show ?thesis
    by (auto simp: in_order_def step_def createTodo_def insert_todo_def new_Todo_def
        split: sum.splits option.splits prod.splits if_splits)
next
  case (ListAll f)
  with assms(1) show ?thesis by (simp add: in_order_def step_def)
next
  case (GetById f i)
  with assms(1) show ?thesis by (simp add: in_order_def step_def)
next
  case (Update f i t' d')
  with assms(1) show ?thesis
    by (auto simp: in_order_def step_def updateTodo_def updateById_def
        split: sum.splits option.splits prod.splits
        dest!: in_findOneAndUpdate)
next
  case (DeleteById f i)
  with assms(1) show ?thesis
    by (auto simp: in_order_def step_def deleteTodo_def deleteById_def
        split: sum.splits option.splits prod.splits
        dest!: in_findOneAndDelete)
qed

lemma in_order_run:
  "in_order s \<Longrightarrow> clock_never_back s es \<Longrightarrow> in_order (run s es)"
proof (induction es arbitrary: s)
  case Nil
  then show ?case by (simp add: run_def)
next
  case (Cons e es)
  have "in_order (step s e)"
    using Cons.prems by (intro in_order_step) auto
  moreover have "clock_never_back (step s e) es"
    using Cons.prems(2) by (cases e) simp_all
  ultimately have "in_order (run (step s e) es)" by (rule Cons.IH)
  then show ?case by (simp add: run_def)
qed

lemma createdAt_kept_step:
  assumes "distinct (map todo_id (todos s))"
    and "find (\<lambda>x. todo_id x = i) (todos s) = Some doc"
    and "find (\<lambda>x. todo_id x = i) (todos (step s e)) = Some doc'"
  shows "createdAt doc' = createdAt doc"
proof (cases e)
  case (Create f oid ttl dsc)
  with assms(2,3) show ?thesis
    by (auto simp: step_def createTodo_def insert_todo_def find_append_present
        split: sum.splits option.splits prod.splits if_splits)
next
  case (Update f j t' d')
  let ?f = "\<lambda>doc. doc\<lparr>title := t', description := d', updatedAt := clock s\<rparr>"
  show ?thesis
  proof (cases "f = None \<and> cast_object_id j \<noteq> None")
    case False
    with Update assms(2,3) show ?thesis
      by (auto simp: step_def updateTodo_def updateById_def split: option.splits)
  next
    case True
    then obtain oid where c: "f = None" "cast_object_id j = Some oid" by auto
    have t: "todos (step s e) = snd (findOneAndUpdate oid ?f (todos s))"
      using Update c by (auto simp: step_def updateTodo_def updateById_def
          split: option.splits prod.splits)
    show ?thesis
    proof (cases "oid = i")
      case True
      from assms(2) have "todo_id doc = i" by (auto dest: find_Some_iff [THEN iffD1])
      then have "find (\<lambda>x. todo_id x = i) (snd (findOneAndUpdate i ?f (todos s))) = Some (?f doc)"
        using find_findOneAndUpdate_same [OF assms(2), of ?f] by simp
      with assms(3) t True show ?thesis by auto
    next
      case False
      then have "find (\<lambda>x. todo_id x = i) (snd (findOneAndUpdate oid ?f (todos s)))
          = find (\<lambda>x. todo_id x = i) (todos s)"
        by (intro find_findOneAndUpdate_other) auto
      with assms(2,3) t show ?thesis by simp
    qed
  qed
next
  case (DeleteById f j)
  show ?thesis
  proof (cases "f = None \<and> cast_object_id j \<noteq> None")
    case False
    with DeleteById assms(2,3) show ?thesis
      by (auto simp: step_def deleteTodo_def deleteById_def split: option.splits)
  next
    case True
    then obtain oid where c: "f = None" "cast_object_id j = Some oid" by auto
    have t: "todos (step s e) = snd (findOneAndDelete oid (todos s))"
      using DeleteById c by (auto simp: step_def deleteTodo_def deleteById_def
          split: option.splits prod.splits)
    show ?thesis
    proof (cases "oid = i")
      case True
      have "find (\<lambda>x. todo_id x = i) (snd (findOneAndDelete i (todos s))) = None"
        using assms(1,2) by (intro find_findOneAndDelete_same) auto
      with assms(3) t True show ?thesis by simp
    next
      case False
      then have "find (\<lambda>x. todo_id x = i) (snd (findOneAndDelete oid (todos s)))
          = find (\<lambda>x. todo_id x = i) (todos s)"
        by (intro find_findOneAndDelete_other) auto
      with assms(2,3) t show ?thesis by simp
    qed
  qed
qed (use assms(2,3) in \<open>simp_all add: step_def load_model_def\<close>)

lemma update_found:
  assumes "cast_object_id i = Some oid" and "find (\<lambda>x. todo_id x = oid) db = Some doc"
  shows "\<exists>db'. updateTodo None i t d now db
            = (Success (Document (doc\<lparr>title := t, description := d, updatedAt := now\<rparr>)), db') \<and>
           find (\<lambda>x. todo_id x = oid) db'
            = Some (doc\<lparr>title := t, description := d, updatedAt := now\<rparr>) \<and>
           map todo_id db' = map todo_id db \<and>
           (\<forall>j. j \<noteq> oid \<longrightarrow> find (\<lambda>x. todo_id x = j) db' = find (\<lambda>x. todo_id x = j) db)"
proof -
  let ?f = "\<lambda>x. x\<lparr>title := t, description := d, updatedAt := now\<rparr>"
  obtain r db' where u: "findOneAndUpdate oid ?f db = (r, db')"
    by (cases "findOneAndUpdate oid ?f db")
  from assms(2) have i: "todo_id doc = oid"
    by (auto dest: find_Some_iff [THEN iffD1])
  have r: "r = Some (?f doc)"
    using findOneAndUpdate_present [OF assms(2), of ?f] u by simp
  have "find (\<lambda>x. todo_id x = oid) db' = Some (?f doc)"
    using find_findOneAndUpdate_same [OF assms(2), of ?f] u i by simp
  moreover have "map todo_id db' = map todo_id db"
    using ids_findOneAndUpdate [of ?f oid db] u by simp
  moreover have "\<forall>j. j \<noteq> oid \<longrightarrow> find (\<lambda>x. todo_id x = j) db' = find (\<lambda>x. todo_id x = j) db"
    using find_findOneAndUpdate_other [of _ oid ?f db] u by simp
  ultimately show ?thesis
    using u r assms(1) by (simp add: updateTodo_def updateById_def)
qed

lemma createdAt_kept_run:
  assumes "distinct (map todo_id (todos s))"
    and "\<forall>k\<le>length es. find (\<lambda>x. todo_id x = i) (todos (run s (take k es))) \<noteq> None"
  shows "map_option createdAt (find (\<lambda>x. todo_id x = i) (todos (run s es)))
       = map_option createdAt (find (\<lambda>x. todo_id x = i) (todos s))"
  using assms(2)
proof (induction es rule: rev_induct)
  case Nil
  then show ?case by (simp add: run_def)
next
  case (snoc e es)
  have pre: "\<forall>k\<le>length es. find (\<lambda>x. todo_id x = i) (todos (run s (take k es))) \<noteq> None"
  proof (intro allI impI)
    fix k assume k: "k \<le> length es"
    from snoc.prems have "k \<le> length (es @ [e]) \<longrightarrow>
        find (\<lambda>x. todo_id x = i) (todos (run s (take k (es @ [e])))) \<noteq> None"
      by blast
    with k have "find (\<lambda>x. todo_id x = i) (todos (run s (take k (es @ [e])))) \<noteq> None"
      by simp
    with k show "find (\<lambda>x. todo_id x = i) (todos (run s (take k es))) \<noteq> None" by simp
  qed
  then have ih: "map_option createdAt (find (\<lambda>x. todo_id x = i) (todos (run s es)))
       = map_option createdAt (find (\<lambda>x. todo_id x = i) (todos s))"
    by (rule snoc.IH)
  from pre obtain doc where d: "find (\<lambda>x. todo_id x = i) (todos (run s es)) = Some doc"
    by (auto dest: spec [of _ "length es"])
  have r: "run s (es @ [e]) = step (run s es) e" by (simp add: run_def)
  from snoc.prems have "find (\<lambda>x. todo_id x = i) (todos (run s (es @ [e]))) \<noteq> None"
    by (auto dest: spec [of _ "Suc (length es)"])
  then obtain doc' where d': "find (\<lambda>x. todo_id x = i) (todos (step (run s es) e)) = Some doc'"
    using r by auto
  have "distinct (map todo_id (todos (run s es)))"
    using assms(1) by (rule distinct_run)
  then have "createdAt doc' = createdAt doc"
    using d d' by (rule createdAt_kept_step)
  with ih d d' r show ?case by simp
qed

section \<open>Update\<close>

lemma scenario_updated:
  "run (first_start 5 0)
     [Create None ''60d5ec49c1234567890abc12'' (Some ''Buy groceries'') (Some ''Milk, eggs, bread''),
      Clock 10,
      Update None ''60d5ec49c1234567890abc12'' ''Updated title'' ''Updated description'']
   = \<lparr>clock = 10, schema = new_toDoSchema 5 5,
      todos = [\<lparr>todo_id = ''60d5ec49c1234567890abc12'', title = ''Updated title'',
                description = ''Updated description'', createdAt = 5, updatedAt = 10\<rparr>]\<rparr>"
  by (simp add: run_def step_def first_start_def load_model_def createTodo_def path_errors_def
      required_def maxLength_def insert_todo_def new_Todo_def new_toDoSchema_def updateTodo_def
      updateById_def cast_example_12)





section \<open>Create, then fetch\<close>




section \<open>Timestamps over every run of the service\<close>

text \<open>
  Against C5 as stated: a record is created at reading 100, the clock of the machine is
  set back to 50, and the record is updated. The stored record has \<open>createdAt\<close> 100
  and \<open>updatedAt\<close> 50.
\<close>

theorem clock_set_back_counterexample:
  "run (first_start 100 0)
     [Create None ''60d5ec49c1234567890abc12'' (Some ''Buy groceries'') (Some ''Milk, eggs, bread''),
      Clock 50,
      Update None ''60d5ec49c1234567890abc12'' ''Updated title'' ''Updated description'']
   = \<lparr>clock = 50, schema = new_toDoSchema 100 100,
      todos = [\<lparr>todo_id = ''60d5ec49c1234567890abc12'', title = ''Updated title'',
                description = ''Updated description'', createdAt = 100, updatedAt = 50\<rparr>]\<rparr>"
  by (simp add: run_def step_def first_start_def load_model_def createTodo_def path_errors_def
      required_def maxLength_def insert_todo_def new_Todo_def new_toDoSchema_def updateTodo_def
      updateById_def cast_example_12)

text \<open>
  C5, as the service has it. Let \<open>s\<close> be the state after any sequence of events from
  the first start: new readings of the clock, loads of the model, and the five
  operations, with or without store errors. If the clock was never set back, every
  stored Todo has \<open>createdAt \<le> updatedAt\<close>. A Todo that stays stored through a
  further sequence of events has the same \<open>createdAt\<close> after it. An update of a
  stored Todo that raises no store error succeeds and sets \<open>updatedAt\<close> to the
  reading of the clock at the update.
\<close>

theorem timestamps_in_order:
  assumes "s = run (first_start t0 d) es"
  shows "(clock_never_back (first_start t0 d) es \<longrightarrow>
            (\<forall>doc\<in>set (todos s). createdAt doc \<le> updatedAt doc)) \<and>
         (\<forall>es' i. (\<forall>k\<le>length es'.
                      find (\<lambda>x. todo_id x = i) (todos (run s (take k es'))) \<noteq> None) \<longrightarrow>
            map_option createdAt (find (\<lambda>x. todo_id x = i) (todos (run s es')))
              = map_option createdAt (find (\<lambda>x. todo_id x = i) (todos s))) \<and>
         (\<forall>i oid t' d' doc. cast_object_id i = Some oid \<longrightarrow>
            find (\<lambda>x. todo_id x = oid) (todos s) = Some doc \<longrightarrow>
            (\<exists>doc'. exec s (Update None i t' d')
                      = (Some (Success (Document doc')), step s (Update None i t' d')) \<and>
                    updatedAt doc' = clock s \<and> createdAt doc' = createdAt doc \<and>
                    find (\<lambda>x. todo_id x = oid) (todos (step s (Update None i t' d')))
                      = Some doc'))"
proof -
  have a: "\<forall>doc\<in>set (todos s). createdAt doc \<le> updatedAt doc"
    if "clock_never_back (first_start t0 d) es"
  proof -
    have "in_order s"
      unfolding assms using in_order_first_start that by (rule in_order_run)
    then show ?thesis by (simp add: in_order_def)
  qed
  have ds: "distinct (map todo_id (todos s))"
    unfolding assms using distinct_first_start by (rule distinct_run)
  have b: "map_option createdAt (find (\<lambda>x. todo_id x = i) (todos (run s es')))
              = map_option createdAt (find (\<lambda>x. todo_id x = i) (todos s))"
    if "\<forall>k\<le>length es'. find (\<lambda>x. todo_id x = i) (todos (run s (take k es'))) \<noteq> None"
    for es' i
    using ds that by (rule createdAt_kept_run)
  have c: "\<exists>doc'. exec s (Update None i t' d')
                      = (Some (Success (Document doc')), step s (Update None i t' d')) \<and>
                    updatedAt doc' = clock s \<and> createdAt doc' = createdAt doc \<and>
                    find (\<lambda>x. todo_id x = oid) (todos (step s (Update None i t' d')))
                      = Some doc'"
    if h1: "cast_object_id i = Some oid"
      and h2: "find (\<lambda>x. todo_id x = oid) (todos s) = Some doc"
    for i oid t' d' doc
  proof -
    obtain db' where u: "updateTodo None i t' d' (clock s) (todos s)
        = (Success (Document (doc\<lparr>title := t', description := d', updatedAt := clock s\<rparr>)), db')"
      and f: "find (\<lambda>x. todo_id x = oid) db'
        = Some (doc\<lparr>title := t', description := d', updatedAt := clock s\<rparr>)"
      using update_found [OF h1 h2, of t' d' "clock s"] by blast
    show ?thesis using u f by (simp add: step_def)
  qed
  from a b c show ?thesis by blast
qed

text \<open>
  The record of the scenario after its update at reading 10.
\<close>

theorem timestamps_in_order_witness:
  "\<lparr>todo_id = ''60d5ec49c1234567890abc12'', title = ''Updated title'',
     description = ''Updated description'', createdAt = 5, updatedAt = 10\<rparr>
     \<in> set (todos (run (first_start 5 0)
         [Create None ''60d5ec49c1234567890abc12'' (Some ''Buy groceries'')
            (Some ''Milk, eggs, bread''),
          Clock 10,
          Update None ''60d5ec49c1234567890abc12'' ''Updated title'' ''Updated description''])) \<and>
   createdAt \<lparr>todo_id = ''60d5ec49c1234567890abc12'', title = ''Updated title'',
     description = ''Updated description'', createdAt = 5, updatedAt = 10\<rparr>
     \<le> updatedAt \<lparr>todo_id = ''60d5ec49c1234567890abc12'', title = ''Updated title'',
     description = ''Updated description'', createdAt = 5, updatedAt = 10\<rparr>"
proof -
  let ?es = "[Create None ''60d5ec49c1234567890abc12'' (Some ''Buy groceries'')
            (Some ''Milk, eggs, bread''),
          Clock 10,
          Update None ''60d5ec49c1234567890abc12'' ''Updated title'' ''Updated description'']"
  have h: "clock_never_back (first_start 5 0) ?es"
    by (simp add: step_def first_start_def load_model_def split: prod.splits)
  show ?thesis
    using timestamps_in_order [OF refl, of 5 0 ?es] h
    by (simp add: scenario_updated)
qed

section \<open>Failure responses\<close>




section \<open>Routing\<close>

lemma stack_startup:
  "stack (startup env index_js) =
     [Json_parser, Mount [''api'', ''v1''] router,
      App_route \<lparr>route_method = GET, route_path = [], route_handler = HomePage\<rparr>]"
  by (simp add: startup_def index_js_def new_process_def)

lemma match_path_mount:
  "match_path (map Lit pre @ Mount_point # pat) path =
     (case strip_mount pre path of None \<Rightarrow> None | Some rest \<Rightarrow> match_path pat rest)"
proof (induction pre arbitrary: path)
  case Nil
  then show ?case by simp
next
  case (Cons l ls)
  then show ?case by (cases path) simp_all
qed

lemma strip_mount_not_root:
  "strip_mount (l # ls) path = Some rest \<Longrightarrow> match_path [] path = None"
  by (cases path) simp_all

lemma visit_mounted:
  "strip_mount pre path = Some rest \<Longrightarrow>
     visit opts (r\<lparr>route_path := map Lit pre @ Mount_point # route_path r\<rparr>) m path
       = visit opts r m rest"
  by (auto simp: visit_def match_path_mount split: option.splits)

lemma visit_not_mounted:
  "strip_mount pre path = None \<Longrightarrow>
     visit opts (r\<lparr>route_path := map Lit pre @ Mount_point # route_path r\<rparr>) m path = Inr opts"
  by (auto simp: visit_def match_path_mount split: option.splits)

lemma visit_no_match:
  "match_path (route_path r) path = None \<Longrightarrow> visit opts r m path = Inr opts"
  by (simp add: visit_def)

lemma routes_from_mounted:
  assumes "strip_mount pre path = Some rest"
  shows "routes_from opts
           (map (\<lambda>r. r\<lparr>route_path := map Lit pre @ Mount_point # route_path r\<rparr>) rs) m path
         = routes_from opts rs m rest"
  by (induction rs arbitrary: opts)
    (simp_all add: visit_mounted [OF assms] split: sum.splits prod.splits)

lemma routes_from_not_mounted:
  assumes "strip_mount pre path = None"
  shows "routes_from opts
           (map (\<lambda>r. r\<lparr>route_path := map Lit pre @ Mount_point # route_path r\<rparr>) rs @ others)
           m path
         = routes_from opts others m path"
  by (induction rs arbitrary: opts) (simp_all add: visit_not_mounted [OF assms])

lemma routes_from_append_no_match:
  assumes "match_path (route_path r) path = None"
  shows "routes_from opts (rs @ [r]) m path = routes_from opts rs m path"
proof (induction rs arbitrary: opts)
  case Nil
  then show ?case by (simp add: visit_no_match [OF assms])
next
  case (Cons a rs)
  then show ?case by (simp split: sum.splits prod.splits)
qed

lemma exposed_mounted:
  "exposed =
     map (\<lambda>r. r\<lparr>route_path := map Lit [''api'', ''v1''] @ Mount_point # route_path r\<rparr>) router @
     [\<lparr>route_method = GET, route_path = [], route_handler = HomePage\<rparr>]"
  by (simp add: exposed_def router_def)

lemma dispatch_startup:
  "dispatch (stack (startup env index_js)) m path = find_route exposed m path"
proof (cases "strip_mount [''api'', ''v1''] path")
  case None
  have "routes_from [] exposed m path
      = routes_from [] [\<lparr>route_method = GET, route_path = [], route_handler = HomePage\<rparr>] m path"
    unfolding exposed_mounted by (rule routes_from_not_mounted [OF None])
  moreover have "layers_from [] (stack (startup env index_js)) m path
      = routes_from [] [\<lparr>route_method = GET, route_path = [], route_handler = HomePage\<rparr>] m path"
    unfolding stack_startup using None by (simp split: sum.splits prod.splits)
  ultimately show ?thesis by (simp add: dispatch_def find_route_def)
next
  case (Some rest)
  then have root: "match_path [] path = None" by (rule strip_mount_not_root)
  have "routes_from [] exposed m path
      = routes_from []
          (map (\<lambda>r. r\<lparr>route_path := map Lit [''api'', ''v1''] @ Mount_point # route_path r\<rparr>)
             router) m path"
    unfolding exposed_mounted by (rule routes_from_append_no_match) (simp add: root)
  also have "\<dots> = routes_from [] router m rest"
    by (rule routes_from_mounted [OF Some])
  finally have flat: "routes_from [] exposed m path = routes_from [] router m rest" .
  have "visit [] \<lparr>route_method = GET, route_path = [], route_handler = HomePage\<rparr> m path = Inr []"
    by (rule visit_no_match) (simp add: root)
  then have "layers_from [] (stack (startup env index_js)) m path
      = routes_from [] router m rest"
    unfolding stack_startup using Some
    by (cases "routes_from [] router m rest") (simp_all add: find_route_def)
  with flat show ?thesis by (simp add: dispatch_def find_route_def)
qed

lemma append_methods_not_empty: "append_methods opts (allowed rm) \<noteq> []"
  by (cases opts; cases rm) (simp_all add: append_methods_def)

lemma routes_from_NotFound:
  "(routes_from opts rs m path = NotFoundDefault) =
     (opts = [] \<and>
      \<not> list_ex (\<lambda>r. match_path (route_path r) path \<noteq> None \<and>
                      (handles (route_method r) m \<or> m = OPTIONS)) rs)"
proof (induction rs arbitrary: opts)
  case Nil
  then show ?case by (cases opts) simp_all
next
  case (Cons r rs)
  have v: "visit opts r m path = Inr opts' \<Longrightarrow>
      (opts' = []) = (opts = [] \<and> \<not> (match_path (route_path r) path \<noteq> None \<and>
         (handles (route_method r) m \<or> m = OPTIONS)))" for opts'
    using append_methods_not_empty [of opts "route_method r"]
    by (auto simp: visit_def split: option.splits if_splits)
  have h: "visit opts r m path = Inl x \<Longrightarrow>
      match_path (route_path r) path \<noteq> None \<and> handles (route_method r) m" for x
    by (auto simp: visit_def split: option.splits if_splits)
  show ?case
  proof (cases "visit opts r m path")
    case (Inl x)
    with h [OF Inl] show ?thesis by (cases x) simp
  next
    case (Inr opts')
    with v [OF Inr] Cons.IH [of opts'] show ?thesis by auto
  qed
qed

lemma find_route_NotFound:
  "(find_route rs m path = NotFoundDefault) =
     (\<not> list_ex (\<lambda>r. match_path (route_path r) path \<noteq> None \<and>
                     (handles (route_method r) m \<or> m = OPTIONS)) rs)"
  by (simp add: find_route_def routes_from_NotFound)

text \<open>
  Against C9 as stated: three requests that are none of the five documented
  combinations and do not fall through to the not-found default. A GET request for the
  root path is answered by the home page of index.js; a HEAD request for the list of
  todos goes to the handler of the GET route; an OPTIONS request for the same path is
  answered with the methods that the path allows.
\<close>

theorem home_page_counterexample:
  "dispatch (stack (startup None index_js)) GET [] = Handled HomePage [] \<and>
   dispatch (stack (startup None index_js)) HEAD [''api'', ''v1'', ''getTodos'']
     = Handled GetTodo [] \<and>
   dispatch (stack (startup None index_js)) OPTIONS [''api'', ''v1'', ''getTodos'']
     = Options_reply [GET, HEAD]"
  by code_simp

text \<open>
  C9, as the application has it. For a request whose path holds no percent escape, the
  layers that index.js sets up route exactly as the one table \<open>exposed\<close> does: the
  five operations of the interface under the base path and the home page at the root,
  where a GET route also takes the HEAD request and the framework itself answers an
  OPTIONS request for a path that has a route. The request falls through to the
  not-found default exactly when no entry of the table matches its path and takes its
  method.
\<close>

theorem dispatch_exposed:
  assumes "\<forall>seg\<in>set path. CHR ''%'' \<notin> set seg"
  shows "dispatch (stack (startup env index_js)) m path = find_route exposed m path \<and>
   (dispatch (stack (startup env index_js)) m path = NotFoundDefault) =
     (\<not> list_ex (\<lambda>r. match_path (route_path r) path \<noteq> None \<and>
                     (handles (route_method r) m \<or> m = OPTIONS)) exposed)"
  by (simp add: dispatch_startup find_route_NotFound)

text \<open>
  Three requests without escapes: a lookup under the base path written in capitals and
  with one more slash after it, a method that no route of the path takes, and a path
  that no route has.
\<close>

theorem dispatch_exposed_witness:
  "dispatch (stack (startup None index_js)) GET
     [''API'', ''v1'', [], ''getTodo'', ''60d5ec49c1234567890abc12'']
     = Handled GetTodoById [(''id'', ''60d5ec49c1234567890abc12'')] \<and>
   dispatch (stack (startup None index_js)) PATCH [''api'', ''v1'', ''getTodos'']
     = NotFoundDefault \<and>
   dispatch (stack (startup None index_js)) GET [''api'', ''v1''] = NotFoundDefault"
proof -
  have "find_route exposed GET [''API'', ''v1'', [], ''getTodo'', ''60d5ec49c1234567890abc12'']
      = Handled GetTodoById [(''id'', ''60d5ec49c1234567890abc12'')]"
    by code_simp
  moreover have "find_route exposed PATCH [''api'', ''v1'', ''getTodos''] = NotFoundDefault"
    by code_simp
  moreover have "find_route exposed GET [''api'', ''v1''] = NotFoundDefault"
    by code_simp
  ultimately show ?thesis
    using dispatch_exposed [of "[''API'', ''v1'', [], ''getTodo'', ''60d5ec49c1234567890abc12'']"
        None GET]
      dispatch_exposed [of "[''api'', ''v1'', ''getTodos'']" None PATCH]
      dispatch_exposed [of "[''api'', ''v1'']" None GET]
    by simp
qed

section \<open>Listening and connecting\<close>

lemma startup_index_js:
  "startup env index_js =
     \<lparr>stack = [Json_parser, Mount [''api'', ''v1''] router,
               App_route \<lparr>route_method = GET, route_path = [], route_handler = HomePage\<rparr>],
      listening = Some (PORT env), connection = Connecting,
      console = [''server started at '' @ PORT env], exit_code = None\<rparr>"
  by (simp add: startup_def index_js_def new_process_def)

text \<open>
  C10. In index.js the call of \<open>app.listen\<close> stands before the call of
  \<open>dbConnect\<close>: after the statements up to \<open>app.listen\<close> the server listens and
  the connection has not been started. After all of index.js the server listens and the
  connection is only being established; in that state every request is received and
  routed by the table of the exposed operations. The connection exists only once the
  promise of the connection has resolved.
\<close>

theorem listening_before_connecting:
  "index_js = [Use_json, Use_todoRoutes, Listen] @ Call_dbConnect # [Get_home] \<and>
   listening (startup env [Use_json, Use_todoRoutes, Listen]) = Some (PORT env) \<and>
   connection (startup env [Use_json, Use_todoRoutes, Listen]) = NotStarted \<and>
   listening (startup env index_js) = Some (PORT env) \<and>
   connection (startup env index_js) = Connecting \<and>
   receive (startup env index_js) m path = Some (find_route exposed m path) \<and>
   connection (snd (settle mode on_connected on_failed (startup env index_js) Resolved))
     = Connected"
proof -
  have "receive (startup env index_js) m path
      = Some (dispatch (stack (startup env index_js)) m path)"
    by (simp add: receive_def startup_index_js)
  then have r: "receive (startup env index_js) m path = Some (find_route exposed m path)"
    by (simp only: dispatch_startup)
  have c: "connection (snd (settle mode on_connected on_failed (startup env index_js) Resolved))
      = Connected"
    by (simp add: call_def on_connected_def startup_index_js log_line_def)
  from r c show ?thesis
    by (simp add: startup_def index_js_def new_process_def)
qed

section \<open>A connection that fails\<close>

lemma on_failed_raises:
  assumes "exit_code p = None"
  shows "rejected mode on_failed reason p =
     (Some (ReferenceError ''error is not defined''),
      unhandled mode (p\<lparr>console := console p @ [''issue in connection'']\<rparr>))"
  using assms
  by (simp add: rejected_def call_def on_failed_def database_js_scope_def log_line_def)

lemma documented_on_failed_exits:
  assumes "exit_code p = None"
  shows "rejected mode documented_on_failed reason p =
     (None, p\<lparr>console := console p @ [''Issue in connection'', reason], exit_code := Some 1\<rparr>)"
  using assms
  by (simp add: rejected_def call_def documented_on_failed_def database_js_scope_def log_line_def)

text \<open>
  C8, on the code. When the connection that index.js started is rejected, the callback
  of database.js logs its first line and then raises a ReferenceError: it reads
  \<open>error\<close>, which it does not take as a parameter, and never comes to an exit. Where
  the runtime only warns about the rejection that is left, the process has no exit code
  and goes on to receive and route every request; where the runtime ends the process on
  such a rejection, the process ends with code 1. The callback that the repository's
  documentation lists ends the process with code 1 under either setting.
\<close>

theorem failed_connection_no_exit:
  "settle Warn on_connected on_failed (startup env index_js) (Rejected reason) =
     (Some (ReferenceError ''error is not defined''),
      (startup env index_js)
        \<lparr>connection := Failed,
         console := [''server started at '' @ PORT env, ''issue in connection'']\<rparr>) \<and>
   exit_code (snd (settle Warn on_connected on_failed (startup env index_js) (Rejected reason)))
     = None \<and>
   receive (snd (settle Warn on_connected on_failed (startup env index_js) (Rejected reason)))
       m path
     = Some (find_route exposed m path) \<and>
   exit_code (snd (settle Throw on_connected on_failed (startup env index_js) (Rejected reason)))
     = Some 1 \<and>
   exit_code (snd (settle mode on_connected documented_on_failed (startup env index_js)
       (Rejected reason)))
     = Some 1"
  using dispatch_startup [of env m path]
  by (simp add: on_failed_raises documented_on_failed_exits receive_def startup_index_js)

end
